theory Spec2Isabelle
  imports Main
begin

section \<open>The two copies of the schema module\<close>

text \<open>
  The repository holds the schema module twice: the second document of \<^verbatim>\<open>src/index.js\<close>
  (\<^verbatim>\<open>schema.js\<close>) and \<^verbatim>\<open>src/unnamed/part_000\<close>. They differ in the names of two
  fields (\<^verbatim>\<open>firstName\<close> and \<^verbatim>\<open>title\<close> in the first, \<^verbatim>\<open>name\<close> for both in the second),
  in the name of the exported constant and in the order of \<^verbatim>\<open>updatePost\<close> and
  \<^verbatim>\<open>deletePost\<close>. The model takes the copy as a parameter.
\<close>

datatype variant = Schema_js | Part_000

fun name_key :: "variant \<Rightarrow> string" where
  "name_key Schema_js = ''firstName''"
| "name_key Part_000 = ''name''"

fun title_key :: "variant \<Rightarrow> string" where
  "title_key Schema_js = ''title''"
| "title_key Part_000 = ''name''"

fun schema_name :: "variant \<Rightarrow> string" where
  "schema_name Schema_js = ''schema''"
| "schema_name Part_000 = ''Schema''"

section \<open>Documents and the store\<close>

text \<open>
  An identifier is the string the client sends as a \<^verbatim>\<open>GraphQLID\<close>. A field of a
  document that is absent, \<^verbatim>\<open>undefined\<close> or \<^verbatim>\<open>null\<close> is \<open>None\<close>.
\<close>

type_synonym ident = string

record user =
  user_id :: ident
  firstName :: "string option"
  email :: "string option"
  phone :: "string option"

record post =
  post_id :: ident
  title :: "string option"
  description :: "string option"
  status :: "string option"
  creatorId :: "ident option"

text \<open>
  A JavaScript object literal whose values may be \<^verbatim>\<open>undefined\<close>: the keys in the order
  written, \<open>None\<close> for \<^verbatim>\<open>undefined\<close>. The \<^verbatim>\<open>args\<close> object of a resolver holds only
  defined values, so it is a list of key and string; \<^verbatim>\<open>args.k\<close> is \<open>map_of args k\<close>,
  \<open>None\<close> when the object has no such key.
\<close>

type_synonym obj = "(string \<times> string option) list"
type_synonym args = "(string \<times> string) list"

definition getprop :: "obj \<Rightarrow> string \<Rightarrow> string option" where
  "getprop ob k = (case map_of ob k of Some (Some x) \<Rightarrow> Some x | _ \<Rightarrow> None)"

text \<open>
  The writes that changed a collection, oldest first. It is kept beside the collections
  to state in which order a resolver's writes reach the store.
\<close>

datatype write_op =
    InsertedUser ident
  | InsertedPost ident
  | UpdatedPost ident
  | RemovedUser ident
  | RemovedPost ident

record store =
  users :: "user list"
  posts :: "post list"
  next_id :: nat
  journal :: "write_op list"

text \<open>
  The store client is not part of the source files: the module calls \<^verbatim>\<open>User\<close> and
  \<^verbatim>\<open>Post\<close> (the comments name mongoose) without importing them. Two behaviours of that
  client differ between its releases and decide what the resolvers below do, so they
  are parameters of the model:
  \<^item> \<open>strictQuery\<close>: a filter key that is not a path of the collection's schema is
    dropped from the filter (so the filter matches every document) instead of being
    sent to the store (where it matches no document that lacks the field);
  \<^item> \<open>omitUndefined\<close>: a key of a \<^verbatim>\<open>$set\<close> patch whose value is \<^verbatim>\<open>undefined\<close> is
    dropped from the patch instead of being written as \<^verbatim>\<open>null\<close>.
\<close>

record store_config =
  strictQuery :: bool
  omitUndefined :: bool

definition post_paths :: "variant \<Rightarrow> string list" where
  "post_paths v = [''_id'', title_key v, ''description'', ''status'', ''creatorId'']"

definition post_get :: "variant \<Rightarrow> string \<Rightarrow> post \<Rightarrow> string option" where
  "post_get v k p =
     (if k = ''_id'' \<or> k = ''id'' then Some (post_id p)
      else if k = title_key v then title p
      else if k = ''description'' then description p
      else if k = ''status'' then status p
      else if k = ''creatorId'' then creatorId p
      else None)"

definition user_get :: "variant \<Rightarrow> string \<Rightarrow> user \<Rightarrow> string option" where
  "user_get v k u =
     (if k = ''_id'' \<or> k = ''id'' then Some (user_id u)
      else if k = name_key v then firstName u
      else if k = ''email'' then email u
      else if k = ''phone'' then phone u
      else None)"

definition post_set :: "variant \<Rightarrow> string \<Rightarrow> string option \<Rightarrow> post \<Rightarrow> post" where
  "post_set v k x p =
     (if k = title_key v then p\<lparr>title := x\<rparr>
      else if k = ''description'' then p\<lparr>description := x\<rparr>
      else if k = ''status'' then p\<lparr>status := x\<rparr>
      else if k = ''creatorId'' then p\<lparr>creatorId := x\<rparr>
      else p)"

text \<open>Modelled from the spec: the store client's operations (section 2 and section 6 of
  the spec), which the source calls and does not define. A lookup that finds nothing
  gives \<open>None\<close>; failures of the store itself are outside the model.\<close>

definition User_findById :: "ident option \<Rightarrow> store \<Rightarrow> user option" where
  "User_findById i s =
     (case i of None \<Rightarrow> None | Some x \<Rightarrow> find (\<lambda>u. user_id u = x) (users s))"

definition Post_findById :: "ident option \<Rightarrow> store \<Rightarrow> post option" where
  "Post_findById i s =
     (case i of None \<Rightarrow> None | Some x \<Rightarrow> find (\<lambda>p. post_id p = x) (posts s))"

definition User_find :: "store \<Rightarrow> user list" where
  "User_find s = users s"

definition sent_filter :: "store_config \<Rightarrow> variant \<Rightarrow> obj \<Rightarrow> obj" where
  "sent_filter cfg v flt =
     (if strictQuery cfg then filter (\<lambda>kv. fst kv \<in> set (post_paths v)) flt else flt)"

definition Post_find :: "store_config \<Rightarrow> variant \<Rightarrow> obj \<Rightarrow> store \<Rightarrow> post list" where
  "Post_find cfg v flt s =
     filter (\<lambda>p. list_all (\<lambda>kv. post_get v (fst kv) p = snd kv) (sent_filter cfg v flt))
       (posts s)"

definition fresh_id :: "nat \<Rightarrow> ident" where
  "fresh_id n = ''oid'' @ replicate n (CHR ''i'')"

definition new_User :: "variant \<Rightarrow> obj \<Rightarrow> store \<Rightarrow> user" where
  "new_User v ob s =
     \<lparr>user_id = fresh_id (next_id s), firstName = getprop ob (name_key v),
      email = getprop ob ''email'', phone = getprop ob ''phone''\<rparr>"

definition new_Post :: "variant \<Rightarrow> obj \<Rightarrow> store \<Rightarrow> post" where
  "new_Post v ob s =
     \<lparr>post_id = fresh_id (next_id s), title = getprop ob (title_key v),
      description = getprop ob ''description'', status = getprop ob ''status'',
      creatorId = getprop ob ''creatorId''\<rparr>"

definition User_save :: "user \<Rightarrow> store \<Rightarrow> user \<times> store" where
  "User_save u s =
     (u, s\<lparr>users := users s @ [u], next_id := Suc (next_id s),
            journal := journal s @ [InsertedUser (user_id u)]\<rparr>)"

definition Post_save :: "post \<Rightarrow> store \<Rightarrow> post \<times> store" where
  "Post_save p s =
     (p, s\<lparr>posts := posts s @ [p], next_id := Suc (next_id s),
            journal := journal s @ [InsertedPost (post_id p)]\<rparr>)"

definition sent_patch :: "store_config \<Rightarrow> obj \<Rightarrow> obj" where
  "sent_patch cfg patch =
     (if omitUndefined cfg then filter (\<lambda>kv. snd kv \<noteq> None) patch else patch)"

definition apply_patch :: "variant \<Rightarrow> obj \<Rightarrow> post \<Rightarrow> post" where
  "apply_patch v patch p = foldl (\<lambda>q kv. post_set v (fst kv) (snd kv) q) p patch"

definition Post_findByIdAndUpdate ::
  "store_config \<Rightarrow> variant \<Rightarrow> ident option \<Rightarrow> obj \<Rightarrow> store \<Rightarrow> post option \<times> store" where
  "Post_findByIdAndUpdate cfg v i patch s =
     (case Post_findById i s of
        None \<Rightarrow> (None, s)
      | Some p \<Rightarrow>
          (let q = apply_patch v (sent_patch cfg patch) p in
           (Some q,
            s\<lparr>posts := map (\<lambda>r. if post_id r = post_id p then q else r) (posts s),
              journal := journal s @ [UpdatedPost (post_id p)]\<rparr>)))"

definition User_findByIdAndRemove :: "ident option \<Rightarrow> store \<Rightarrow> user option \<times> store" where
  "User_findByIdAndRemove i s =
     (case User_findById i s of
        None \<Rightarrow> (None, s)
      | Some u \<Rightarrow>
          (Some u,
           s\<lparr>users := filter (\<lambda>r. user_id r \<noteq> user_id u) (users s),
             journal := journal s @ [RemovedUser (user_id u)]\<rparr>))"

definition Post_findByIdAndRemove :: "ident option \<Rightarrow> store \<Rightarrow> post option \<times> store" where
  "Post_findByIdAndRemove i s =
     (case Post_findById i s of
        None \<Rightarrow> (None, s)
      | Some p \<Rightarrow>
          (Some p,
           s\<lparr>posts := filter (\<lambda>r. post_id r \<noteq> post_id p) (posts s),
             journal := journal s @ [RemovedPost (post_id p)]\<rparr>))"

definition deleteOne :: "post \<Rightarrow> store \<Rightarrow> store" where
  "deleteOne p s =
     (if post_id p \<in> post_id ` set (posts s)
      then s\<lparr>posts := filter (\<lambda>r. post_id r \<noteq> post_id p) (posts s),
             journal := journal s @ [RemovedPost (post_id p)]\<rparr>
      else s)"

section \<open>The execution engine's types\<close>

text \<open>
  The engine (the \<^verbatim>\<open>graphql\<close> package) is not part of the source files either. What the
  module hands to it is modelled as data: argument types, field configurations with
  their resolvers, object types and the schema. The source writes \<^verbatim>\<open>GraphQLId\<close> for
  the type of every \<^verbatim>\<open>id\<close> field and of the \<^verbatim>\<open>id\<close> argument of the two queries, a name
  the package does not export; it is read as the identifier scalar \<^verbatim>\<open>GraphQLID\<close>.
\<close>

datatype arg_type =
    GraphQLString
  | GraphQLID
  | GraphQLEnumType string "(string \<times> string) list"
  | GraphQLNonNull arg_type

record arg_config =
  atype :: arg_type
  defaultValue :: "string option"

datatype out_type = Named string | GraphQLList out_type

datatype error =
    ReferenceError string
  | NoMutationType
  | CannotQueryField string string
  | UnknownArgument string string
  | MissingArgument string string
  | InvalidEnumValue string string

datatype resolved =
    OneUser "user option"
  | ManyUsers "user list"
  | OnePost "post option"
  | ManyPosts "post list"

type_synonym resolver = "args \<Rightarrow> store \<Rightarrow> (error + resolved) \<times> store"

text \<open>
  A field configuration is the object literal written for a field: its \<^verbatim>\<open>type\<close>, its
  \<^verbatim>\<open>args\<close>, its \<^verbatim>\<open>resolve\<close> and whatever other keys the literal holds (\<open>others\<close>),
  which the engine does not read.
\<close>

datatype field_config =
  FieldConfig (ftype: out_type) (fargs: "(string \<times> arg_config) list") (resolve: resolver)
    (others: "(string \<times> field_config) list")

record object_type =
  type_name :: string
  type_fields :: "(string \<times> field_config) list"

record schema_config =
  query :: object_type
  mutation_type :: "object_type option"

section \<open>Resolvers of the Query Root\<close>

text \<open>
  A root resolver is \<^verbatim>\<open>(parent, args) => ...\<close>; no root resolver reads \<^verbatim>\<open>parent\<close>, so
  the model leaves it out. The store is threaded through, and a throw is \<open>Inl\<close>.
  \<^verbatim>\<open>User\<close> and \<^verbatim>\<open>Post\<close> are taken as bound to the store client's two collections.
\<close>

definition user_resolve :: resolver where
  "user_resolve a s = (Inr (OneUser (User_findById (map_of a ''id'') s)), s)"

definition users_resolve :: resolver where
  "users_resolve a s = (Inr (ManyUsers (User_find s)), s)"

definition post_resolve :: resolver where
  "post_resolve a s = (Inr (OnePost (Post_findById (map_of a ''id'') s)), s)"

definition posts_resolve :: "store_config \<Rightarrow> variant \<Rightarrow> resolver" where
  "posts_resolve cfg v a s = (Inr (ManyPosts (Post_find cfg v [] s)), s)"

text \<open>
  In both copies the literal of \<^verbatim>\<open>user\<close> is not closed before \<^verbatim>\<open>users\<close>, \<^verbatim>\<open>post\<close>
  and \<^verbatim>\<open>posts\<close> are written: the three are keys of the \<^verbatim>\<open>user\<close> field's configuration,
  and \<^verbatim>\<open>fields\<close> has the single key \<^verbatim>\<open>user\<close>.
\<close>

definition RootQuery :: "store_config \<Rightarrow> variant \<Rightarrow> object_type" where
  "RootQuery cfg v =
     \<lparr>type_name = ''RootQueryType'',
      type_fields =
        [(''user'',
          FieldConfig (Named ''User'')
            [(''id'', \<lparr>atype = GraphQLID, defaultValue = None\<rparr>)]
            user_resolve
            [(''users'', FieldConfig (GraphQLList (Named ''User'')) [] users_resolve []),
             (''post'',
              FieldConfig (Named ''Post'')
                [(''id'', \<lparr>atype = GraphQLID, defaultValue = None\<rparr>)] post_resolve []),
             (''posts'',
              FieldConfig (GraphQLList (Named ''Post'')) [] (posts_resolve cfg v) [])])]\<rparr>"

section \<open>Resolvers of the Mutation Root\<close>

definition createUser_resolve :: "variant \<Rightarrow> resolver" where
  "createUser_resolve v a s =
     (let name = map_of a (name_key v); email = map_of a ''email'';
          phone = map_of a ''phone''
      in case User_save
             (new_User v [(name_key v, name), (''email'', email), (''phone'', phone)] s) s of
           (u, s') \<Rightarrow> (Inr (OneUser (Some u)), s'))"

text \<open>
  The identifiers a statement of \<^verbatim>\<open>deleteUser\<close>'s resolver can name: its parameters, its
  two constants, the module's imports and constants, and the two store handles, taken
  as bound. The module is an ES module (it uses \<^verbatim>\<open>import\<close> and \<^verbatim>\<open>export\<close>), so its
  code is strict: assigning to an identifier that is not bound throws a
  \<^verbatim>\<open>ReferenceError\<close>. The parameter \<^verbatim>\<open>post\<close> of \<^verbatim>\<open>PostType\<close>'s \<^verbatim>\<open>creator\<close> resolver is
  local to that function.
\<close>

definition module_bindings :: "variant \<Rightarrow> string list" where
  "module_bindings v =
     [''GraphQLObjectType'', ''GraphQLId'', ''GraphQLString'', ''GraphQLSchema'',
      ''GraphQLList'', ''GraphQLNonNull'', ''GraphQLEnumType'', ''GraphQLID'',
      ''UserType'', ''PostType'', ''RootQuery'', ''mutation'', schema_name v]"

definition store_handles :: "string list" where
  "store_handles = [''User'', ''Post'']"

definition deleteUser_scope :: "variant \<Rightarrow> string list" where
  "deleteUser_scope v =
     [''parent'', ''args'', ''userId'', ''usersPosts''] @ module_bindings v @ store_handles"

text \<open>
  \<^verbatim>\<open>for (post of usersPosts) { await post.deleteOne() }\<close>: each iteration first assigns
  the next element to \<^verbatim>\<open>post\<close>, then runs the body and waits for it. The result is the
  error thrown, if any, and the store as the loop left it.
\<close>

fun cascade :: "string list \<Rightarrow> post list \<Rightarrow> store \<Rightarrow> error option \<times> store" where
  "cascade sc [] s = (None, s)"
| "cascade sc (p # ps) s =
     (if ''post'' \<in> set sc then cascade sc ps (deleteOne p s)
      else (Some (ReferenceError ''post''), s))"

definition deleteUser_body :: "string list \<Rightarrow> store_config \<Rightarrow> variant \<Rightarrow> resolver" where
  "deleteUser_body sc cfg v a s =
     (let userId = map_of a ''id'';
          usersPosts = Post_find cfg v [(''userId'', userId)] s
      in case cascade sc usersPosts s of
           (Some e, s') \<Rightarrow> (Inl e, s')
         | (None, s') \<Rightarrow>
             (case User_findByIdAndRemove userId s' of
                (u, s'') \<Rightarrow> (Inr (OneUser u), s'')))"

definition deleteUser_resolve :: "store_config \<Rightarrow> variant \<Rightarrow> resolver" where
  "deleteUser_resolve cfg v = deleteUser_body (deleteUser_scope v) cfg v"

definition createPost_resolve :: "variant \<Rightarrow> resolver" where
  "createPost_resolve v a s =
     (case Post_save
             (new_Post v
                [(''creatorId'', map_of a ''userId''),
                 (title_key v, map_of a (title_key v)),
                 (''description'', map_of a ''description''),
                 (''status'', map_of a ''status'')] s) s of
        (p, s') \<Rightarrow> (Inr (OnePost (Some p)), s'))"

definition updatePost_resolve :: "store_config \<Rightarrow> variant \<Rightarrow> resolver" where
  "updatePost_resolve cfg v a s =
     (case Post_findByIdAndUpdate cfg v (map_of a ''id'')
             [(title_key v, map_of a (title_key v)),
              (''description'', map_of a ''description''),
              (''status'', map_of a ''status'')] s of
        (r, s') \<Rightarrow> (Inr (OnePost r), s'))"

definition deletePost_resolve :: resolver where
  "deletePost_resolve a s =
     (case Post_findByIdAndRemove (map_of a ''id'') s of
        (r, s') \<Rightarrow> (Inr (OnePost r), s'))"

definition PostStatus :: arg_type where
  "PostStatus =
     GraphQLEnumType ''PostStatus''
       [(''new'', ''Not Started''), (''progress'', ''In Progress''),
        (''completed'', ''Completed'')]"

definition PostStatusUpdate :: arg_type where
  "PostStatusUpdate =
     GraphQLEnumType ''PostStatusUpdate''
       [(''new'', ''Not Started''), (''progress'', ''In Progress''),
        (''completed'', ''Completed'')]"

definition createUser_field :: "variant \<Rightarrow> field_config" where
  "createUser_field v =
     FieldConfig (Named ''User'')
       [(name_key v, \<lparr>atype = GraphQLNonNull GraphQLString, defaultValue = None\<rparr>),
        (''email'', \<lparr>atype = GraphQLNonNull GraphQLString, defaultValue = None\<rparr>),
        (''phone'', \<lparr>atype = GraphQLNonNull GraphQLString, defaultValue = None\<rparr>)]
       (createUser_resolve v) []"

definition deleteUser_field :: "store_config \<Rightarrow> variant \<Rightarrow> field_config" where
  "deleteUser_field cfg v =
     FieldConfig (Named ''User'')
       [(''id'', \<lparr>atype = GraphQLNonNull GraphQLID, defaultValue = None\<rparr>)]
       (deleteUser_resolve cfg v) []"

definition createPost_field :: "variant \<Rightarrow> field_config" where
  "createPost_field v =
     FieldConfig (Named ''Post'')
       [(''creatorId'', \<lparr>atype = GraphQLNonNull GraphQLID, defaultValue = None\<rparr>),
        (title_key v, \<lparr>atype = GraphQLNonNull GraphQLString, defaultValue = None\<rparr>),
        (''description'', \<lparr>atype = GraphQLNonNull GraphQLString, defaultValue = None\<rparr>),
        (''status'', \<lparr>atype = PostStatus, defaultValue = Some ''Not Started''\<rparr>)]
       (createPost_resolve v) []"

definition updatePost_field :: "store_config \<Rightarrow> variant \<Rightarrow> field_config" where
  "updatePost_field cfg v =
     FieldConfig (Named ''Post'')
       [(''id'', \<lparr>atype = GraphQLNonNull GraphQLID, defaultValue = None\<rparr>),
        (title_key v, \<lparr>atype = GraphQLString, defaultValue = None\<rparr>),
        (''description'', \<lparr>atype = GraphQLString, defaultValue = None\<rparr>),
        (''status'', \<lparr>atype = PostStatusUpdate, defaultValue = None\<rparr>)]
       (updatePost_resolve cfg v) []"

definition deletePost_field :: field_config where
  "deletePost_field =
     FieldConfig (Named ''Post'')
       [(''id'', \<lparr>atype = GraphQLNonNull GraphQLID, defaultValue = None\<rparr>)]
       deletePost_resolve []"

definition mutation :: "store_config \<Rightarrow> variant \<Rightarrow> object_type" where
  "mutation cfg v =
     \<lparr>type_name = ''Mutation'',
      type_fields =
        [(''createUser'', createUser_field v),
         (''deleteUser'', deleteUser_field cfg v),
         (''createPost'', createPost_field v)] @
        (case v of
           Schema_js \<Rightarrow>
             [(''updatePost'', updatePost_field cfg v), (''deletePost'', deletePost_field)]
         | Part_000 \<Rightarrow>
             [(''deletePost'', deletePost_field), (''updatePost'', updatePost_field cfg v)])\<rparr>"

text \<open>\<^verbatim>\<open>new GraphQLSchema({ query: RootQuery })\<close>: the literal has no \<^verbatim>\<open>mutation\<close> key.\<close>

definition schema :: "store_config \<Rightarrow> variant \<Rightarrow> schema_config" where
  "schema cfg v = \<lparr>query = RootQuery cfg v, mutation_type = None\<rparr>"

section \<open>Executing a request\<close>

text \<open>Modelled from the spec: the execution engine, which the source hands the schema to
  and does not define (sections 2, 4.3, 6 and 7 of the spec). A request names one root
  field of the query or of the mutation type, with the arguments as written by the
  client (an enumerated value by its token). A field name the root type does not have,
  an argument the field does not declare, a missing required argument and an unknown
  token are rejected before the resolver runs and leave the store as it was; a default
  value stands in for an omitted argument; an omitted argument without one is no key of
  \<^verbatim>\<open>args\<close>. A schema without a mutation type rejects every mutation.\<close>

fun is_non_null :: "arg_type \<Rightarrow> bool" where
  "is_non_null (GraphQLNonNull t) = True"
| "is_non_null t = False"

fun coerce_literal :: "arg_type \<Rightarrow> string \<Rightarrow> error + string" where
  "coerce_literal GraphQLString x = Inr x"
| "coerce_literal GraphQLID x = Inr x"
| "coerce_literal (GraphQLEnumType nm vals) x =
     (case map_of vals x of None \<Rightarrow> Inl (InvalidEnumValue nm x) | Some y \<Rightarrow> Inr y)"
| "coerce_literal (GraphQLNonNull t) x = coerce_literal t x"

fun getArgumentValues :: "string \<Rightarrow> (string \<times> arg_config) list \<Rightarrow> args \<Rightarrow> error + args" where
  "getArgumentValues f [] supplied = Inr []"
| "getArgumentValues f (d # defs) supplied =
     (case map_of supplied (fst d) of
        None \<Rightarrow>
          (case defaultValue (snd d) of
             Some x \<Rightarrow>
               (case getArgumentValues f defs supplied of
                  Inl e \<Rightarrow> Inl e
                | Inr r \<Rightarrow> Inr ((fst d, x) # r))
           | None \<Rightarrow>
               (if is_non_null (atype (snd d)) then Inl (MissingArgument f (fst d))
                else getArgumentValues f defs supplied))
      | Some x \<Rightarrow>
          (case coerce_literal (atype (snd d)) x of
             Inl e \<Rightarrow> Inl e
           | Inr y \<Rightarrow>
               (case getArgumentValues f defs supplied of
                  Inl e \<Rightarrow> Inl e
                | Inr r \<Rightarrow> Inr ((fst d, y) # r))))"

definition unknown_argument :: "(string \<times> arg_config) list \<Rightarrow> args \<Rightarrow> string option" where
  "unknown_argument defs supplied = find (\<lambda>k. k \<notin> set (map fst defs)) (map fst supplied)"

definition execute_field :: "object_type \<Rightarrow> string \<Rightarrow> resolver" where
  "execute_field t f supplied s =
     (case map_of (type_fields t) f of
        None \<Rightarrow> (Inl (CannotQueryField f (type_name t)), s)
      | Some fc \<Rightarrow>
          (case unknown_argument (fargs fc) supplied of
             Some k \<Rightarrow> (Inl (UnknownArgument f k), s)
           | None \<Rightarrow>
               (case getArgumentValues f (fargs fc) supplied of
                  Inl e \<Rightarrow> (Inl e, s)
                | Inr a \<Rightarrow> resolve fc a s)))"

datatype operation = Query | Mutation

definition execute :: "schema_config \<Rightarrow> operation \<Rightarrow> string \<Rightarrow> resolver" where
  "execute sch opn f supplied s =
     (case opn of
        Query \<Rightarrow> execute_field (query sch) f supplied s
      | Mutation \<Rightarrow>
          (case mutation_type sch of
             None \<Rightarrow> (Inl NoMutationType, s)
           | Some m \<Rightarrow> execute_field m f supplied s))"

section \<open>The entity types and the response tree\<close>

text \<open>
  \<^verbatim>\<open>UserType\<close> has four fields, each a copy of the document's property. \<^verbatim>\<open>PostType\<close> has
  four such fields and \<^verbatim>\<open>creator\<close>, of type \<^verbatim>\<open>UserType\<close>, with a resolver and no
  \<^verbatim>\<open>args\<close>: \<^verbatim>\<open>(post, args) => User.findById(post.creatorId)\<close>.
\<close>

definition UserType_fields :: "variant \<Rightarrow> string list" where
  "UserType_fields v = [''id'', name_key v, ''email'', ''phone'']"

definition PostType_scalars :: "variant \<Rightarrow> string list" where
  "PostType_scalars v = [''id'', title_key v, ''description'', ''status'']"

definition creator_args :: "(string \<times> arg_config) list" where
  "creator_args = []"

definition creator_resolve :: "post \<Rightarrow> args \<Rightarrow> store \<Rightarrow> user option" where
  "creator_resolve p a s = User_findById (creatorId p) s"

text \<open>Modelled from the spec: how the engine turns a resolved value into the response
  tree for the selected fields (sections 2, 4.2 and 7 of the spec). The selection is
  checked against the types first; then every selected field is read, a nested object
  through its resolver, and a resolver's \<open>None\<close> becomes \<^verbatim>\<open>null\<close> at that node.\<close>

datatype selection =
  Sel (sel_name: string) (sel_args: args) (sel_subs: "selection list")

datatype json = JNull | JString string | JObject "(string \<times> json) list" | JArray "json list"

datatype sel_error = BadSelection error | ScalarWithSelection string | ObjectWithoutSelection string

fun json_of :: "string option \<Rightarrow> json" where
  "json_of None = JNull"
| "json_of (Some x) = JString x"

fun validate_user :: "variant \<Rightarrow> selection list \<Rightarrow> sel_error option" where
  "validate_user v [] = None"
| "validate_user v (x # xs) =
     (if sel_name x \<notin> set (UserType_fields v)
      then Some (BadSelection (CannotQueryField (sel_name x) ''User''))
      else (case unknown_argument [] (sel_args x) of
              Some k \<Rightarrow> Some (BadSelection (UnknownArgument (sel_name x) k))
            | None \<Rightarrow>
                (if sel_subs x \<noteq> [] then Some (ScalarWithSelection (sel_name x))
                 else validate_user v xs)))"

fun validate_post :: "variant \<Rightarrow> selection list \<Rightarrow> sel_error option" where
  "validate_post v [] = None"
| "validate_post v (x # xs) =
     (if sel_name x = ''creator'' then
        (case unknown_argument creator_args (sel_args x) of
           Some k \<Rightarrow> Some (BadSelection (UnknownArgument (sel_name x) k))
         | None \<Rightarrow>
             (if sel_subs x = [] then Some (ObjectWithoutSelection (sel_name x))
              else (case validate_user v (sel_subs x) of
                      Some e \<Rightarrow> Some e
                    | None \<Rightarrow> validate_post v xs)))
      else if sel_name x \<in> set (PostType_scalars v) then
        (case unknown_argument [] (sel_args x) of
           Some k \<Rightarrow> Some (BadSelection (UnknownArgument (sel_name x) k))
         | None \<Rightarrow>
             (if sel_subs x \<noteq> [] then Some (ScalarWithSelection (sel_name x))
              else validate_post v xs))
      else Some (BadSelection (CannotQueryField (sel_name x) ''Post'')))"

definition user_object :: "variant \<Rightarrow> selection list \<Rightarrow> user \<Rightarrow> json" where
  "user_object v sels u =
     JObject (map (\<lambda>x. (sel_name x, json_of (user_get v (sel_name x) u))) sels)"

definition post_object :: "variant \<Rightarrow> selection list \<Rightarrow> post \<Rightarrow> store \<Rightarrow> json" where
  "post_object v sels p s =
     JObject
       (map (\<lambda>x. (sel_name x,
                 if sel_name x = ''creator'' then
                   (case creator_resolve p (sel_args x) s of
                      None \<Rightarrow> JNull
                    | Some u \<Rightarrow> user_object v (sel_subs x) u)
                 else json_of (post_get v (sel_name x) p)))
          sels)"

definition respond :: "variant \<Rightarrow> selection list \<Rightarrow> resolved \<Rightarrow> store \<Rightarrow> sel_error + json" where
  "respond v sels r s =
     (case r of
        OneUser uo \<Rightarrow>
          (case validate_user v sels of
             Some e \<Rightarrow> Inl e
           | None \<Rightarrow> Inr (case uo of None \<Rightarrow> JNull | Some u \<Rightarrow> user_object v sels u))
      | ManyUsers us \<Rightarrow>
          (case validate_user v sels of
             Some e \<Rightarrow> Inl e
           | None \<Rightarrow> Inr (JArray (map (user_object v sels) us)))
      | OnePost po \<Rightarrow>
          (case validate_post v sels of
             Some e \<Rightarrow> Inl e
           | None \<Rightarrow> Inr (case po of None \<Rightarrow> JNull | Some p \<Rightarrow> post_object v sels p s))
      | ManyPosts ps \<Rightarrow>
          (case validate_post v sels of
             Some e \<Rightarrow> Inl e
           | None \<Rightarrow> Inr (JArray (map (\<lambda>p. post_object v sels p s) ps))))"

section \<open>A small store to run the resolvers on\<close>

definition alice :: user where
  "alice =
     \<lparr>user_id = ''u1'', firstName = Some ''Alex'', email = Some ''a@t.com'',
      phone = Some ''07516''\<rparr>"

definition hello_post :: post where
  "hello_post =
     \<lparr>post_id = ''p1'', title = Some ''Hello'', description = Some ''First Post!'',
      status = Some ''Not Started'', creatorId = Some ''u1''\<rparr>"

definition example_store :: store where
  "example_store = \<lparr>users = [alice], posts = [hello_post], next_id = 2, journal = []\<rparr>"

definition strict_client :: store_config where
  "strict_client = \<lparr>strictQuery = True, omitUndefined = True\<rparr>"

definition plain_client :: store_config where
  "plain_client = \<lparr>strictQuery = False, omitUndefined = False\<rparr>"

lemmas example_defs =
  alice_def hello_post_def example_store_def strict_client_def plain_client_def

section \<open>The schema and its two root types\<close>

text \<open>
  C1. The exported schema is built from the query type alone. The mutation type is
  defined, with its five fields, and never handed to the schema: every mutation
  request, whatever field it names, is rejected and leaves the store as it was.
\<close>

theorem schema_rejects_every_mutation:
  "mutation_type (schema cfg v) = None \<and>
   map fst (type_fields (mutation cfg v)) =
     (case v of
        Schema_js \<Rightarrow>
          [''createUser'', ''deleteUser'', ''createPost'', ''updatePost'', ''deletePost'']
      | Part_000 \<Rightarrow>
          [''createUser'', ''deleteUser'', ''createPost'', ''deletePost'', ''updatePost'']) \<and>
   execute (schema cfg v) Mutation f supplied s = (Inl NoMutationType, s)"
  by (cases v) (simp_all add: schema_def execute_def mutation_def)

text \<open>
  C2. The query type has the single field \<^verbatim>\<open>user\<close>; \<^verbatim>\<open>users\<close>, \<^verbatim>\<open>post\<close> and \<^verbatim>\<open>posts\<close>
  are keys inside that field's configuration. A request for \<^verbatim>\<open>users\<close>, \<^verbatim>\<open>posts\<close> or
  \<^verbatim>\<open>post\<close> is rejected as an unknown field, whatever the store holds.
\<close>

theorem RootQuery_has_only_user:
  "map fst (type_fields (RootQuery cfg v)) = [''user''] \<and>
   map fst (others (snd (hd (type_fields (RootQuery cfg v))))) =
     [''users'', ''post'', ''posts''] \<and>
   execute (schema cfg v) Query ''users'' [] s =
     (Inl (CannotQueryField ''users'' ''RootQueryType''), s) \<and>
   execute (schema cfg v) Query ''posts'' [] s =
     (Inl (CannotQueryField ''posts'' ''RootQueryType''), s) \<and>
   execute (schema cfg v) Query ''post'' [(''id'', i)] s =
     (Inl (CannotQueryField ''post'' ''RootQueryType''), s)"
  by (simp add: schema_def execute_def RootQuery_def execute_field_def)

text \<open>The two list resolvers themselves, could a request reach them, return the whole
  collection.\<close>

lemma list_resolvers_return_all:
  "users_resolve a s = (Inr (ManyUsers (users s)), s) \<and>
   posts_resolve cfg v a s = (Inr (ManyPosts (posts s)), s)"
  by (simp add: users_resolve_def posts_resolve_def User_find_def Post_find_def
      sent_filter_def)

section \<open>The cascade of \<^verbatim>\<open>deleteUser\<close>\<close>

lemma post_not_bound: "''post'' \<notin> set (deleteUser_scope v)"
  by (cases v) (simp_all add: deleteUser_scope_def module_bindings_def store_handles_def)

lemma deleteUser_body_unbound:
  assumes "''post'' \<notin> set sc"
    and "Post_find cfg v [(''userId'', map_of a ''id'')] s \<noteq> []"
  shows "deleteUser_body sc cfg v a s = (Inl (ReferenceError ''post''), s)"
proof -
  from assms(2) obtain p ps
    where "Post_find cfg v [(''userId'', map_of a ''id'')] s = p # ps"
    by (auto simp: neq_Nil_conv)
  with assms(1) show ?thesis
    by (simp add: deleteUser_body_def)
qed

lemma User_findByIdAndRemove_posts: "posts (snd (User_findByIdAndRemove i s)) = posts s"
  by (simp add: User_findByIdAndRemove_def split: option.splits)

lemma User_findByIdAndRemove_journal:
  "journal (snd (User_findByIdAndRemove i s)) =
     journal s @
     (case fst (User_findByIdAndRemove i s) of
        None \<Rightarrow> []
      | Some u \<Rightarrow> [RemovedUser (user_id u)])"
  by (simp add: User_findByIdAndRemove_def split: option.splits)

lemma deleteUser_resolve_posts: "posts (snd (deleteUser_resolve cfg v a s)) = posts s"
proof (cases "Post_find cfg v [(''userId'', map_of a ''id'')] s")
  case Nil
  then have "deleteUser_resolve cfg v a s =
      (Inr (OneUser (fst (User_findByIdAndRemove (map_of a ''id'') s))),
       snd (User_findByIdAndRemove (map_of a ''id'') s))"
    by (simp add: deleteUser_resolve_def deleteUser_body_def split: prod.splits)
  then show ?thesis
    by (simp add: User_findByIdAndRemove_posts)
next
  case (Cons p ps)
  then have "Post_find cfg v [(''userId'', map_of a ''id'')] s \<noteq> []" by simp
  from deleteUser_body_unbound [OF post_not_bound this] show ?thesis
    by (simp add: deleteUser_resolve_def)
qed

lemma mutation_deleteUser:
  "map_of (type_fields (mutation cfg v)) ''deleteUser'' = Some (deleteUser_field cfg v)"
  by (simp add: mutation_def)

lemma execute_deleteUser:
  "execute_field (mutation cfg v) ''deleteUser'' [(''id'', i)] s =
     deleteUser_resolve cfg v [(''id'', i)] s"
  by (simp add: execute_field_def mutation_deleteUser)
     (simp add: deleteUser_field_def unknown_argument_def)

text \<open>
  C3. \<^verbatim>\<open>deleteUser\<close> removes no post, in any store: it queries the posts by \<^verbatim>\<open>userId\<close>,
  a field no post has, and its loop cannot run an iteration. On the small store, where
  one post has \<^verbatim>\<open>creatorId\<close> \<^verbatim>\<open>u1\<close>, \<^verbatim>\<open>deleteUser(id: u1)\<close> throws and removes nothing with
  a client that drops the unknown filter key, and removes the user and leaves the post
  with a client that sends it.
\<close>

theorem deleteUser_removes_no_post:
  "posts (snd (deleteUser_resolve cfg v a s)) = posts s \<and>
   filter (\<lambda>p. creatorId p = Some ''u1'') (posts example_store) = [hello_post] \<and>
   execute_field (mutation strict_client v) ''deleteUser'' [(''id'', ''u1'')] example_store =
     (Inl (ReferenceError ''post''), example_store) \<and>
   execute_field (mutation plain_client v) ''deleteUser'' [(''id'', ''u1'')] example_store =
     (Inr (OneUser (Some alice)),
      example_store\<lparr>users := [], journal := [RemovedUser ''u1'']\<rparr>) \<and>
   posts (example_store\<lparr>users := [], journal := [RemovedUser ''u1'']\<rparr>) = [hello_post]"
proof -
  have "execute_field (mutation strict_client v) ''deleteUser'' [(''id'', ''u1'')]
          example_store = (Inl (ReferenceError ''post''), example_store)"
    unfolding execute_deleteUser
    by (cases v)
       (simp_all add: deleteUser_resolve_def deleteUser_body_def post_not_bound Post_find_def
          sent_filter_def post_paths_def example_defs)
  moreover have "execute_field (mutation plain_client v) ''deleteUser'' [(''id'', ''u1'')]
          example_store =
        (Inr (OneUser (Some alice)),
         example_store\<lparr>users := [], journal := [RemovedUser ''u1'']\<rparr>)"
    unfolding execute_deleteUser
    by (cases v)
       (simp_all add: deleteUser_resolve_def deleteUser_body_def Post_find_def
          sent_filter_def post_get_def User_findByIdAndRemove_def User_findById_def
          example_defs)
  moreover have "filter (\<lambda>p. creatorId p = Some ''u1'') (posts example_store) = [hello_post]"
    by (simp add: example_defs)
  ultimately show ?thesis
    by (simp add: deleteUser_resolve_posts) (simp add: example_store_def)
qed

text \<open>
  C5. Whenever the posts query of \<^verbatim>\<open>deleteUser\<close> yields a non-empty list, the first
  iteration of the loop assigns to \<^verbatim>\<open>post\<close>, which nothing declares: the resolver throws
  a \<^verbatim>\<open>ReferenceError\<close>, and the store is as it was: no post and no user is removed.
\<close>

theorem deleteUser_nonempty_query_throws:
  "Post_find cfg v [(''userId'', map_of a ''id'')] s \<noteq> [] \<Longrightarrow>
   deleteUser_resolve cfg v a s = (Inl (ReferenceError ''post''), s)"
  unfolding deleteUser_resolve_def
  by (rule deleteUser_body_unbound [OF post_not_bound])

theorem deleteUser_nonempty_query_throws_witness:
  "Post_find strict_client Schema_js [(''userId'', map_of [(''id'', ''u1'')] ''id'')]
     example_store \<noteq> [] \<and>
   deleteUser_resolve strict_client Schema_js [(''id'', ''u1'')] example_store =
     (Inl (ReferenceError ''post''), example_store)"
proof -
  have h: "Post_find strict_client Schema_js [(''userId'', map_of [(''id'', ''u1'')] ''id'')]
             example_store \<noteq> []"
    by (simp add: Post_find_def sent_filter_def post_paths_def example_defs)
  from h deleteUser_nonempty_query_throws [OF h] show ?thesis by simp
qed

text \<open>
  C8. An identifier that matches no user does not make \<^verbatim>\<open>deleteUser\<close> resolve to
  \<^verbatim>\<open>null\<close> when its posts query yields a post: on the small store no user has the
  identifier \<^verbatim>\<open>u9\<close>, and with a client that drops the unknown filter key
  \<^verbatim>\<open>deleteUser(id: u9)\<close> throws.
\<close>

theorem deleteUser_absent_id_throws:
  "User_findById (Some ''u9'') example_store = None \<and>
   execute_field (mutation strict_client v) ''deleteUser'' [(''id'', ''u9'')] example_store =
     (Inl (ReferenceError ''post''), example_store)"
  unfolding execute_deleteUser
  by (cases v)
     (simp_all add: deleteUser_resolve_def deleteUser_body_def post_not_bound Post_find_def
        sent_filter_def post_paths_def User_findById_def example_defs)

text \<open>What does hold for an identifier that matches no record: \<^verbatim>\<open>deletePost\<close> resolves to
  \<^verbatim>\<open>null\<close> and leaves the store as it was, and so does \<^verbatim>\<open>deleteUser\<close> when its posts
  query yields nothing.\<close>

lemma deletePost_absent:
  "Post_findById (map_of a ''id'') s = None \<Longrightarrow>
   deletePost_resolve a s = (Inr (OnePost None), s)"
  by (simp add: deletePost_resolve_def Post_findByIdAndRemove_def)

lemma deleteUser_absent_empty_query:
  "User_findById (map_of a ''id'') s = None \<Longrightarrow>
   Post_find cfg v [(''userId'', map_of a ''id'')] s = [] \<Longrightarrow>
   deleteUser_resolve cfg v a s = (Inr (OneUser None), s)"
  by (simp add: deleteUser_resolve_def deleteUser_body_def User_findByIdAndRemove_def)

subsection \<open>The order of the writes\<close>

lemma deleteOne_users: "users (deleteOne p s) = users s"
  by (simp add: deleteOne_def)

lemma deleteOne_journal: "\<exists>ids. journal (deleteOne p s) = journal s @ map RemovedPost ids"
proof (cases "post_id p \<in> post_id ` set (posts s)")
  case True
  then have "journal (deleteOne p s) = journal s @ map RemovedPost [post_id p]"
    by (simp add: deleteOne_def)
  then show ?thesis by blast
next
  case False
  then have "journal (deleteOne p s) = journal s @ map RemovedPost []"
    by (simp add: deleteOne_def)
  then show ?thesis by blast
qed

lemma deleteOne_posts:
  "posts (deleteOne p s) = filter (\<lambda>r. post_id r \<noteq> post_id p) (posts s)"
proof (cases "post_id p \<in> post_id ` set (posts s)")
  case True
  then show ?thesis by (simp add: deleteOne_def)
next
  case False
  then have "\<forall>r\<in>set (posts s). post_id r \<noteq> post_id p" by (metis imageI)
  then have "filter (\<lambda>r. post_id r \<noteq> post_id p) (posts s) = posts s"
    by (simp add: filter_id_conv)
  with False show ?thesis by (simp add: deleteOne_def)
qed

lemma cascade_users: "cascade sc ps s = (r, s') \<Longrightarrow> users s' = users s"
  by (induction ps arbitrary: s) (auto simp: deleteOne_users split: if_splits)

lemma cascade_journal:
  "cascade sc ps s = (r, s') \<Longrightarrow> \<exists>ids. journal s' = journal s @ map RemovedPost ids"
proof (induction ps arbitrary: s)
  case Nil
  then have "journal s' = journal s @ map RemovedPost []" by simp
  then show ?case by blast
next
  case (Cons p ps)
  show ?case
  proof (cases "''post'' \<in> set sc")
    case True
    with Cons.prems have "cascade sc ps (deleteOne p s) = (r, s')" by simp
    from Cons.IH [OF this] obtain ids
      where a: "journal s' = journal (deleteOne p s) @ map RemovedPost ids" by blast
    obtain ids0 where b: "journal (deleteOne p s) = journal s @ map RemovedPost ids0"
      using deleteOne_journal by blast
    from a b have "journal s' = journal s @ map RemovedPost (ids0 @ ids)" by simp
    then show ?thesis by blast
  next
    case False
    with Cons.prems have "journal s' = journal s @ map RemovedPost []" by auto
    then show ?thesis by blast
  qed
qed

lemma cascade_posts_subset:
  "cascade sc ps s = (r, s') \<Longrightarrow> set (posts s') \<subseteq> set (posts s)"
proof (induction ps arbitrary: s)
  case Nil
  then show ?case by simp
next
  case (Cons p ps)
  show ?case
  proof (cases "''post'' \<in> set sc")
    case True
    with Cons.prems have "cascade sc ps (deleteOne p s) = (r, s')" by simp
    from Cons.IH [OF this] show ?thesis by (auto simp: deleteOne_posts)
  next
    case False
    with Cons.prems show ?thesis by auto
  qed
qed

lemma cascade_removes_all:
  "cascade sc ps s = (None, s') \<Longrightarrow>
   filter (\<lambda>r. post_id r \<in> post_id ` set ps) (posts s') = []"
proof (induction ps arbitrary: s)
  case Nil
  then show ?case by simp
next
  case (Cons p ps)
  show ?case
  proof (cases "''post'' \<in> set sc")
    case True
    with Cons.prems have c: "cascade sc ps (deleteOne p s) = (None, s')" by simp
    from Cons.IH [OF c] have 1: "\<forall>r\<in>set (posts s'). post_id r \<notin> post_id ` set ps"
      by (simp add: filter_empty_conv)
    from cascade_posts_subset [OF c] have "\<forall>r\<in>set (posts s'). post_id r \<noteq> post_id p"
      by (auto simp: deleteOne_posts)
    with 1 show ?thesis by (auto simp: filter_empty_conv)
  next
    case False
    with Cons.prems show ?thesis by auto
  qed
qed

text \<open>
  The order in which the body of \<^verbatim>\<open>deleteUser\<close> issues its writes, whatever identifiers
  are bound: removals of posts, then, when the resolver returns, at most one removal of
  a user, the last write; when the loop throws, no user is removed.
\<close>

lemma deleteUser_body_writes_in_order:
  "case deleteUser_body sc cfg v a s of
     (Inl e, s') \<Rightarrow>
        users s' = users s \<and> (\<exists>ids. journal s' = journal s @ map RemovedPost ids)
   | (Inr r, s') \<Rightarrow>
        (\<exists>ids. journal s' =
           journal s @ map RemovedPost ids @
             (case r of OneUser (Some u) \<Rightarrow> [RemovedUser (user_id u)] | _ \<Rightarrow> [])) \<and>
        filter
          (\<lambda>p. post_id p \<in>
                post_id ` set (Post_find cfg v [(''userId'', map_of a ''id'')] s))
          (posts s') = []"
proof -
  define ps where "ps = Post_find cfg v [(''userId'', map_of a ''id'')] s"
  obtain c s1 where c: "cascade sc ps s = (c, s1)" by (cases "cascade sc ps s")
  from cascade_journal [OF c] obtain ids
    where j: "journal s1 = journal s @ map RemovedPost ids"
    by blast
  show ?thesis
  proof (cases c)
    case (Some e)
    with c j cascade_users [OF c] show ?thesis
      by (auto simp: deleteUser_body_def ps_def [symmetric])
  next
    case None
    obtain u s2 where r: "User_findByIdAndRemove (map_of a ''id'') s1 = (u, s2)"
      by (cases "User_findByIdAndRemove (map_of a ''id'') s1")
    have body: "deleteUser_body sc cfg v a s = (Inr (OneUser u), s2)"
      using c None r by (simp add: deleteUser_body_def ps_def [symmetric])
    have p2: "posts s2 = posts s1"
      using User_findByIdAndRemove_posts [of "map_of a ''id''" s1] r by simp
    have j2: "journal s2 =
        journal s1 @ (case u of None \<Rightarrow> [] | Some x \<Rightarrow> [RemovedUser (user_id x)])"
      using User_findByIdAndRemove_journal [of "map_of a ''id''" s1] r by simp
    have gone: "filter (\<lambda>p. post_id p \<in> post_id ` set ps) (posts s2) = []"
      using cascade_removes_all c None p2 by simp
    have "journal s2 =
        journal s @ map RemovedPost ids @
          (case OneUser u of OneUser (Some u) \<Rightarrow> [RemovedUser (user_id u)] | _ \<Rightarrow> [])"
      using j j2 by (cases u) simp_all
    with gone body show ?thesis
      unfolding ps_def by auto
  qed
qed

text \<open>
  C7. The source's resolver never removes a post: the only write it adds to the journal
  is the removal of the user. On the small store, where the post \<^verbatim>\<open>p1\<close> has
  \<^verbatim>\<open>creatorId\<close> \<^verbatim>\<open>u1\<close>, \<^verbatim>\<open>deleteUser(id: u1)\<close> with a client that sends the unknown filter
  key removes the user \<^verbatim>\<open>u1\<close> while that post is still in the store: the user is
  removed and the removal of its dependent post has not happened, and never does.
\<close>

theorem deleteUser_removes_user_leaves_dependents:
  "journal (snd (deleteUser_resolve cfg v a s)) =
     journal s @
     (case fst (deleteUser_resolve cfg v a s) of
        Inr (OneUser (Some u)) \<Rightarrow> [RemovedUser (user_id u)]
      | _ \<Rightarrow> []) \<and>
   snd (execute_field (mutation plain_client v) ''deleteUser'' [(''id'', ''u1'')]
          example_store) =
     \<lparr>users = [], posts = [hello_post], next_id = 2, journal = [RemovedUser ''u1'']\<rparr> \<and>
   creatorId hello_post = Some ''u1'' \<and> user_id alice = ''u1'' \<and>
   users example_store = [alice] \<and> posts example_store = [hello_post]"
proof -
  have j: "journal (snd (deleteUser_resolve cfg v a s)) =
     journal s @
     (case fst (deleteUser_resolve cfg v a s) of
        Inr (OneUser (Some u)) \<Rightarrow> [RemovedUser (user_id u)]
      | _ \<Rightarrow> [])"
  proof (cases "Post_find cfg v [(''userId'', map_of a ''id'')] s")
    case Nil
    then have "deleteUser_resolve cfg v a s =
        (Inr (OneUser (fst (User_findByIdAndRemove (map_of a ''id'') s))),
         snd (User_findByIdAndRemove (map_of a ''id'') s))"
      by (simp add: deleteUser_resolve_def deleteUser_body_def split: prod.splits)
    then show ?thesis
      by (simp add: User_findByIdAndRemove_journal split: option.splits)
  next
    case (Cons p ps)
    then have "Post_find cfg v [(''userId'', map_of a ''id'')] s \<noteq> []" by simp
    from deleteUser_body_unbound [OF post_not_bound this] show ?thesis
      by (simp add: deleteUser_resolve_def)
  qed
  have e: "snd (execute_field (mutation plain_client v) ''deleteUser'' [(''id'', ''u1'')]
          example_store) =
     \<lparr>users = [], posts = [hello_post], next_id = 2, journal = [RemovedUser ''u1'']\<rparr>"
    unfolding execute_deleteUser
    by (cases v)
       (simp_all add: deleteUser_resolve_def deleteUser_body_def Post_find_def
          sent_filter_def post_get_def User_findByIdAndRemove_def User_findById_def
          example_defs)
  from j e show ?thesis
    by (simp add: example_defs)
qed

section \<open>The arguments a resolver receives\<close>

text \<open>
  What \<^verbatim>\<open>args.k\<close> is after the engine has read the request against the declared
  arguments: nothing for a key that is not declared; for a declared one the written
  value, an enumerated token replaced by its value, or the default when the argument
  is omitted.
\<close>

lemma getArgumentValues_lookup:
  "getArgumentValues f defs supplied = Inr a \<Longrightarrow> distinct (map fst defs) \<Longrightarrow>
   map_of a k =
     (case map_of defs k of
        None \<Rightarrow> None
      | Some c \<Rightarrow>
          (case map_of supplied k of
             None \<Rightarrow> defaultValue c
           | Some x \<Rightarrow>
               (case coerce_literal (atype c) x of Inl e \<Rightarrow> None | Inr y \<Rightarrow> Some y)))"
proof (induction defs arbitrary: a)
  case Nil
  then show ?case by simp
next
  case (Cons d defs)
  from Cons.prems(2) have nk: "map_of defs (fst d) = None"
    and dd: "distinct (map fst defs)"
    by (simp_all add: map_of_eq_None_iff)
  show ?case
  proof (cases "getArgumentValues f defs supplied")
    case (Inl e)
    with Cons.prems(1) show ?thesis
      by (auto split: option.splits sum.splits if_splits)
  next
    case (Inr r)
    note ih = Cons.IH [OF Inr dd]
    show ?thesis
    proof (cases "k = fst d")
      case True
      with Cons.prems(1) Inr ih nk show ?thesis
        by (cases d) (auto split: option.splits sum.splits if_splits)
    next
      case False
      with Cons.prems(1) Inr ih show ?thesis
        by (cases d) (auto split: option.splits sum.splits if_splits)
    qed
  qed
qed

section \<open>\<^verbatim>\<open>createPost\<close>\<close>

lemma mutation_createPost:
  "map_of (type_fields (mutation cfg v)) ''createPost'' = Some (createPost_field v)"
  by (simp add: mutation_def)

lemma createPost_resolve_eq:
  "createPost_resolve v a s =
     (Inr (OnePost (Some
        \<lparr>post_id = fresh_id (next_id s), title = map_of a (title_key v),
         description = map_of a ''description'', status = map_of a ''status'',
         creatorId = map_of a ''userId''\<rparr>)),
      s\<lparr>posts := posts s @
          [\<lparr>post_id = fresh_id (next_id s), title = map_of a (title_key v),
            description = map_of a ''description'', status = map_of a ''status'',
            creatorId = map_of a ''userId''\<rparr>],
        next_id := Suc (next_id s),
        journal := journal s @ [InsertedPost (fresh_id (next_id s))]\<rparr>)"
  by (cases v; cases "map_of a ''userId''"; cases "map_of a (title_key v)";
      cases "map_of a ''description''"; cases "map_of a ''status''")
     (simp_all add: createPost_resolve_def new_Post_def Post_save_def getprop_def)

lemma createPost_args:
  assumes "map_of supplied ''creatorId'' = Some c"
    and "map_of supplied (title_key v) = Some t"
    and "map_of supplied ''description'' = Some d"
    and "map_of supplied ''status'' \<in>
           {None, Some ''new'', Some ''progress'', Some ''completed''}"
  shows "getArgumentValues ''createPost'' (fargs (createPost_field v)) supplied =
           Inr [(''creatorId'', c), (title_key v, t), (''description'', d),
                (''status'',
                 case map_of supplied ''status'' of
                   None \<Rightarrow> ''Not Started''
                 | Some tok \<Rightarrow>
                     if tok = ''new'' then ''Not Started''
                     else if tok = ''progress'' then ''In Progress'' else ''Completed'')]"
  using assms by (auto simp: createPost_field_def PostStatus_def)

text \<open>
  C4. \<^verbatim>\<open>createPost\<close> declares the argument \<^verbatim>\<open>creatorId\<close> and its resolver reads
  \<^verbatim>\<open>args.userId\<close>, which \<^verbatim>\<open>args\<close> never has: the post written for the request of the
  source's own comment (\<^verbatim>\<open>creatorId: "u1"\<close>, a title, a description, \<^verbatim>\<open>status: new\<close>)
  has no \<^verbatim>\<open>creatorId\<close>, in any store.
\<close>

theorem createPost_drops_creatorId:
  "execute_field (mutation cfg v) ''createPost''
     [(''creatorId'', ''u1''), (title_key v, ''Hello''), (''description'', ''First Post!''),
      (''status'', ''new'')] s =
     (Inr (OnePost (Some
        \<lparr>post_id = fresh_id (next_id s), title = Some ''Hello'',
         description = Some ''First Post!'', status = Some ''Not Started'',
         creatorId = None\<rparr>)),
      s\<lparr>posts := posts s @
          [\<lparr>post_id = fresh_id (next_id s), title = Some ''Hello'',
            description = Some ''First Post!'', status = Some ''Not Started'',
            creatorId = None\<rparr>],
        next_id := Suc (next_id s),
        journal := journal s @ [InsertedPost (fresh_id (next_id s))]\<rparr>)"
  by (cases v)
     (simp_all add: execute_field_def mutation_def unknown_argument_def createPost_field_def
        PostStatus_def createPost_resolve_eq)

text \<open>
  C10. A \<^verbatim>\<open>createPost\<close> request that gives the three required arguments, no argument
  that is not declared and either no \<^verbatim>\<open>status\<close> or one of the three tokens, run
  against the mutation type, appends one post to the collection. Its status is
  \<^verbatim>\<open>Not Started\<close> when \<^verbatim>\<open>status\<close> is omitted, and the value of the token otherwise:
  \<^verbatim>\<open>Not Started\<close> for \<^verbatim>\<open>new\<close>, \<^verbatim>\<open>In Progress\<close> for \<^verbatim>\<open>progress\<close>, \<^verbatim>\<open>Completed\<close> for
  \<^verbatim>\<open>completed\<close>. The enumerated type of \<^verbatim>\<open>updatePost\<close> maps the tokens the same way.
\<close>

theorem createPost_status_default:
  assumes "map_of supplied ''creatorId'' = Some c"
    and "map_of supplied (title_key v) = Some t"
    and "map_of supplied ''description'' = Some d"
    and "map_of supplied ''status'' \<in>
           {None, Some ''new'', Some ''progress'', Some ''completed''}"
    and "unknown_argument (fargs (createPost_field v)) supplied = None"
  shows "(\<exists>p s'. execute_field (mutation cfg v) ''createPost'' supplied s =
                   (Inr (OnePost (Some p)), s') \<and>
            posts s' = posts s @ [p] \<and>
            (map_of supplied ''status'' = None \<longrightarrow> status p = Some ''Not Started'') \<and>
            (map_of supplied ''status'' = Some ''new'' \<longrightarrow> status p = Some ''Not Started'') \<and>
            (map_of supplied ''status'' = Some ''progress'' \<longrightarrow>
               status p = Some ''In Progress'') \<and>
            (map_of supplied ''status'' = Some ''completed'' \<longrightarrow>
               status p = Some ''Completed'')) \<and>
         map (coerce_literal PostStatus) [''new'', ''progress'', ''completed''] =
           [Inr ''Not Started'', Inr ''In Progress'', Inr ''Completed''] \<and>
         map (coerce_literal PostStatusUpdate) [''new'', ''progress'', ''completed''] =
           [Inr ''Not Started'', Inr ''In Progress'', Inr ''Completed'']"
proof (intro conjI)
  show "map (coerce_literal PostStatus) [''new'', ''progress'', ''completed''] =
           [Inr ''Not Started'', Inr ''In Progress'', Inr ''Completed'']"
    by (simp add: PostStatus_def)
  show "map (coerce_literal PostStatusUpdate) [''new'', ''progress'', ''completed''] =
           [Inr ''Not Started'', Inr ''In Progress'', Inr ''Completed'']"
    by (simp add: PostStatusUpdate_def)
  have "execute_field (mutation cfg v) ''createPost'' supplied s =
          createPost_resolve v
            [(''creatorId'', c), (title_key v, t), (''description'', d),
             (''status'',
              case map_of supplied ''status'' of
                None \<Rightarrow> ''Not Started''
              | Some tok \<Rightarrow>
                  if tok = ''new'' then ''Not Started''
                  else if tok = ''progress'' then ''In Progress'' else ''Completed'')] s"
    using assms(5) createPost_args [OF assms(1-4)]
    by (simp add: execute_field_def mutation_createPost) (simp add: createPost_field_def)
  then show "\<exists>p s'. execute_field (mutation cfg v) ''createPost'' supplied s =
                  (Inr (OnePost (Some p)), s') \<and>
           posts s' = posts s @ [p] \<and>
           (map_of supplied ''status'' = None \<longrightarrow> status p = Some ''Not Started'') \<and>
           (map_of supplied ''status'' = Some ''new'' \<longrightarrow> status p = Some ''Not Started'') \<and>
           (map_of supplied ''status'' = Some ''progress'' \<longrightarrow>
              status p = Some ''In Progress'') \<and>
           (map_of supplied ''status'' = Some ''completed'' \<longrightarrow>
              status p = Some ''Completed'')"
    unfolding createPost_resolve_eq by (cases v) auto
qed

theorem createPost_status_default_witness:
  "\<exists>p s'. execute_field (mutation plain_client Schema_js) ''createPost''
            [(''creatorId'', ''u1''), (''title'', ''Hello''), (''description'', ''First Post!'')]
            example_store = (Inr (OnePost (Some p)), s') \<and>
          posts s' = posts example_store @ [p] \<and> status p = Some ''Not Started''"
  using createPost_status_default [where supplied =
      "[(''creatorId'', ''u1''), (''title'', ''Hello''), (''description'', ''First Post!'')]"
      and c = "''u1''" and v = Schema_js and t = "''Hello''" and d = "''First Post!''"
      and cfg = plain_client and s = example_store]
  by (auto simp: unknown_argument_def createPost_field_def)

section \<open>\<^verbatim>\<open>updatePost\<close>\<close>

lemma mutation_updatePost:
  "map_of (type_fields (mutation cfg v)) ''updatePost'' = Some (updatePost_field cfg v)"
  by (cases v) (simp_all add: mutation_def)

lemma updatePost_args_ok:
  assumes "map_of supplied ''id'' = Some i"
    and "map_of supplied ''status'' \<in>
           {None, Some ''new'', Some ''progress'', Some ''completed''}"
  shows "\<exists>a. getArgumentValues ''updatePost'' (fargs (updatePost_field cfg v)) supplied =
               Inr a"
  using assms
  by (cases "map_of supplied (title_key v)"; cases "map_of supplied ''description''";
      cases "map_of supplied ''status''")
     (auto simp: updatePost_field_def PostStatusUpdate_def)

lemma updatePost_resolve_omit:
  assumes "Post_findById (map_of a ''id'') s = Some p" and "omitUndefined cfg"
  shows "\<exists>q s'. updatePost_resolve cfg v a s = (Inr (OnePost (Some q)), s') \<and>
           q \<in> set (posts s') \<and>
           title q =
             (case map_of a (title_key v) of None \<Rightarrow> title p | Some x \<Rightarrow> Some x) \<and>
           description q =
             (case map_of a ''description'' of None \<Rightarrow> description p | Some x \<Rightarrow> Some x) \<and>
           status q = (case map_of a ''status'' of None \<Rightarrow> status p | Some x \<Rightarrow> Some x) \<and>
           post_id q = post_id p \<and> creatorId q = creatorId p"
proof -
  obtain i where i: "map_of a ''id'' = Some i"
    using assms(1) by (cases "map_of a ''id''") (simp_all add: Post_findById_def)
  with assms(1) have "find (\<lambda>p. post_id p = i) (posts s) = Some p"
    by (simp add: Post_findById_def)
  then have mem: "p \<in> set (posts s)" by (auto simp: find_Some_iff)
  define q where "q =
    apply_patch v
      (sent_patch cfg
         [(title_key v, map_of a (title_key v)),
          (''description'', map_of a ''description''),
          (''status'', map_of a ''status'')]) p"
  have r: "updatePost_resolve cfg v a s =
      (Inr (OnePost (Some q)),
       s\<lparr>posts := map (\<lambda>r. if post_id r = post_id p then q else r) (posts s),
         journal := journal s @ [UpdatedPost (post_id p)]\<rparr>)"
    using assms(1)
    by (simp add: updatePost_resolve_def Post_findByIdAndUpdate_def q_def Let_def)
  have inq: "q \<in> set (map (\<lambda>r. if post_id r = post_id p then q else r) (posts s))"
    using mem by force
  have f: "title q =
             (case map_of a (title_key v) of None \<Rightarrow> title p | Some x \<Rightarrow> Some x) \<and>
           description q =
             (case map_of a ''description'' of None \<Rightarrow> description p | Some x \<Rightarrow> Some x) \<and>
           status q = (case map_of a ''status'' of None \<Rightarrow> status p | Some x \<Rightarrow> Some x) \<and>
           post_id q = post_id p \<and> creatorId q = creatorId p"
    using assms(2) unfolding q_def
    by (cases v; cases "map_of a (title_key v)"; cases "map_of a ''description''";
        cases "map_of a ''status''")
       (simp_all add: apply_patch_def sent_patch_def post_set_def)
  from r inq f show ?thesis by simp
qed

lemma updatePost_resolve_patch:
  assumes "Post_findById (map_of a ''id'') s = Some p" and "\<not> omitUndefined cfg"
  shows "updatePost_resolve cfg v a s =
           (Inr (OnePost (Some
              (p\<lparr>title := map_of a (title_key v),
                 description := map_of a ''description'',
                 status := map_of a ''status''\<rparr>))),
            s\<lparr>posts :=
                map (\<lambda>r. if post_id r = post_id p
                          then p\<lparr>title := map_of a (title_key v),
                                 description := map_of a ''description'',
                                 status := map_of a ''status''\<rparr>
                          else r) (posts s),
              journal := journal s @ [UpdatedPost (post_id p)]\<rparr>)"
  using assms
  by (cases v)
     (simp_all add: updatePost_resolve_def Post_findByIdAndUpdate_def sent_patch_def
        apply_patch_def post_set_def Let_def)

text \<open>
  C6. The resolver of \<^verbatim>\<open>updatePost\<close> names all three optional fields in the \<^verbatim>\<open>$set\<close>
  patch, an omitted argument as \<^verbatim>\<open>undefined\<close>, and nothing in it leaves an omitted
  field out. With a store client that writes an \<^verbatim>\<open>undefined\<close> value of a patch, the
  request \<^verbatim>\<open>updatePost(id: p1, status: completed)\<close> on the small store returns and stores
  the post with its title (or name) and its description gone, in both copies.
\<close>

theorem updatePost_nulls_omitted_fields:
  "Post_findById (Some ''p1'') example_store = Some hello_post \<and>
   title hello_post = Some ''Hello'' \<and>
   description hello_post = Some ''First Post!'' \<and>
   execute_field (mutation plain_client v) ''updatePost''
     [(''id'', ''p1''), (''status'', ''completed'')] example_store =
     (Inr (OnePost (Some
        \<lparr>post_id = ''p1'', title = None, description = None, status = Some ''Completed'',
         creatorId = Some ''u1''\<rparr>)),
      \<lparr>users = [alice],
       posts =
         [\<lparr>post_id = ''p1'', title = None, description = None,
           status = Some ''Completed'', creatorId = Some ''u1''\<rparr>],
       next_id = 2, journal = [UpdatedPost ''p1'']\<rparr>)"
  by (cases v)
     (simp_all add: example_defs Post_findById_def execute_field_def mutation_def
        unknown_argument_def updatePost_field_def PostStatusUpdate_def
        updatePost_resolve_def Post_findByIdAndUpdate_def sent_patch_def apply_patch_def
        post_set_def Let_def)

text \<open>
  With a store client that drops the \<^verbatim>\<open>undefined\<close> values of a patch, the same
  resolver keeps what the request omits: an \<^verbatim>\<open>updatePost\<close> request for an existing post
  (its \<^verbatim>\<open>id\<close> given, no argument that is not declared, \<^verbatim>\<open>status\<close> omitted or one of the
  three tokens), run against the mutation type, returns the post as stored after the
  update, and each of title (or name), description and status that the request omits
  has the value it had before.
\<close>

lemma updatePost_keeps_omitted_fields:
  assumes "omitUndefined cfg"
    and "map_of supplied ''id'' = Some i"
    and "Post_findById (Some i) s = Some p"
    and "unknown_argument (fargs (updatePost_field cfg v)) supplied = None"
    and "map_of supplied ''status'' \<in>
           {None, Some ''new'', Some ''progress'', Some ''completed''}"
  shows "\<exists>q s'. execute_field (mutation cfg v) ''updatePost'' supplied s =
                  (Inr (OnePost (Some q)), s') \<and>
           q \<in> set (posts s') \<and> post_id q = post_id p \<and>
           (map_of supplied (title_key v) = None \<longrightarrow> title q = title p) \<and>
           (map_of supplied ''description'' = None \<longrightarrow> description q = description p) \<and>
           (map_of supplied ''status'' = None \<longrightarrow> status q = status p)"
proof -
  obtain a
    where a: "getArgumentValues ''updatePost'' (fargs (updatePost_field cfg v)) supplied =
                Inr a"
    using updatePost_args_ok [OF assms(2) assms(5)] by blast
  have d: "distinct (map fst (fargs (updatePost_field cfg v)))"
    by (cases v) (simp_all add: updatePost_field_def)
  note lk = getArgumentValues_lookup [OF a d]
  have id: "map_of a ''id'' = Some i"
    using lk [of "''id''"] assms(2) by (simp add: updatePost_field_def)
  have t: "map_of supplied (title_key v) = None \<Longrightarrow> map_of a (title_key v) = None"
    using lk [of "title_key v"] by (cases v) (simp_all add: updatePost_field_def)
  have de: "map_of supplied ''description'' = None \<Longrightarrow> map_of a ''description'' = None"
    using lk [of "''description''"] by (cases v) (simp_all add: updatePost_field_def)
  have st: "map_of supplied ''status'' = None \<Longrightarrow> map_of a ''status'' = None"
    using lk [of "''status''"] by (cases v) (simp_all add: updatePost_field_def)
  have ex: "execute_field (mutation cfg v) ''updatePost'' supplied s =
              updatePost_resolve cfg v a s"
    using a assms(4)
    by (simp add: execute_field_def mutation_updatePost) (simp add: updatePost_field_def)
  from assms(3) id have "Post_findById (map_of a ''id'') s = Some p" by simp
  from updatePost_resolve_omit [OF this assms(1), of v] obtain q s' where
    q: "updatePost_resolve cfg v a s = (Inr (OnePost (Some q)), s')" "q \<in> set (posts s')"
       "title q = (case map_of a (title_key v) of None \<Rightarrow> title p | Some x \<Rightarrow> Some x)"
       "description q =
          (case map_of a ''description'' of None \<Rightarrow> description p | Some x \<Rightarrow> Some x)"
       "status q = (case map_of a ''status'' of None \<Rightarrow> status p | Some x \<Rightarrow> Some x)"
       "post_id q = post_id p"
    by blast
  with ex t de st show ?thesis by auto
qed

lemma updatePost_keeps_omitted_fields_witness:
  "\<exists>q s'. execute_field (mutation strict_client Schema_js) ''updatePost''
            [(''id'', ''p1''), (''status'', ''completed'')] example_store =
            (Inr (OnePost (Some q)), s') \<and>
          q \<in> set (posts s') \<and> title q = Some ''Hello'' \<and>
          description q = Some ''First Post!''"
  using updatePost_keeps_omitted_fields [where cfg = strict_client
      and supplied = "[(''id'', ''p1''), (''status'', ''completed'')]" and i = "''p1''"
      and s = example_store and p = hello_post and v = Schema_js]
  by (auto simp: example_defs Post_findById_def unknown_argument_def updatePost_field_def)

section \<open>The \<^verbatim>\<open>creator\<close> of a post\<close>

lemma find_absent: "x \<notin> f ` set xs \<Longrightarrow> find (\<lambda>u. f u = x) xs = None"
  by (induction xs) auto

lemma validate_creator_email:
  "validate_post v [Sel ''creator'' [] [Sel ''email'' [] []]] = None"
  by (simp add: unknown_argument_def creator_args_def UserType_fields_def)

lemma find_present:
  "find (\<lambda>u. f u = x) xs = Some y \<Longrightarrow> y \<in> set xs \<and> f y = x"
  by (auto simp: find_Some_iff)

text \<open>
  C9. \<^verbatim>\<open>creator\<close> declares no argument (a request that gives it one is rejected), and
  its resolver, whatever \<^verbatim>\<open>args\<close> is, is the lookup of the user by the post's
  \<^verbatim>\<open>creatorId\<close>: the first user of the collection with that identifier, \<open>None\<close> when
  the post has no \<^verbatim>\<open>creatorId\<close> or no user has that identifier. The response to the
  selection \<^verbatim>\<open>creator { email }\<close> on a list of posts is always a result and never an
  error: every post has its entry, with the email of the user found, or
  \<^verbatim>\<open>creator: null\<close> when there is none. In particular, when no user has the identifier
  of a post's \<^verbatim>\<open>creatorId\<close>, the resolver gives \<open>None\<close> and the response for a list that
  holds the post, or for the post alone, has \<^verbatim>\<open>creator: null\<close> for it.
\<close>

theorem creator_absent_is_null:
  "creator_args = [] \<and>
   creator_resolve p a s =
     (case creatorId p of
        None \<Rightarrow> None
      | Some c \<Rightarrow> find (\<lambda>u. user_id u = c) (users s)) \<and>
   respond v [Sel ''creator'' [] [Sel ''email'' [] []]] (ManyPosts ps) s =
     Inr (JArray
       (map (\<lambda>q. JObject
                 [(''creator'',
                   case (case creatorId q of
                           None \<Rightarrow> None
                         | Some c \<Rightarrow> find (\<lambda>u. user_id u = c) (users s)) of
                     None \<Rightarrow> JNull
                   | Some u \<Rightarrow> JObject [(''email'', json_of (email u))])])
          ps)) \<and>
   (creatorId p = Some c \<and> c \<notin> user_id ` set (users s) \<longrightarrow>
      creator_resolve p a s = None \<and>
      respond v [Sel ''creator'' [] [Sel ''email'' [] []]]
        (ManyPosts (before @ p # after)) s =
        Inr (JArray
          (map (\<lambda>q. post_object v [Sel ''creator'' [] [Sel ''email'' [] []]] q s) before @
           JObject [(''creator'', JNull)] #
           map (\<lambda>q. post_object v [Sel ''creator'' [] [Sel ''email'' [] []]] q s) after)) \<and>
      respond v [Sel ''creator'' [] [Sel ''email'' [] []]] (OnePost (Some p)) s =
        Inr (JObject [(''creator'', JNull)])) \<and>
   validate_post v [Sel ''creator'' ((k, x) # rest) subs] =
     Some (BadSelection (UnknownArgument ''creator'' k))"
proof -
  have lookup: "creator_resolve q a' s =
      (case creatorId q of
         None \<Rightarrow> None
       | Some c \<Rightarrow> find (\<lambda>u. user_id u = c) (users s))" for q a'
    by (simp add: creator_resolve_def User_findById_def)
  have obj: "post_object v [Sel ''creator'' [] [Sel ''email'' [] []]] q s =
      JObject
        [(''creator'',
          case (case creatorId q of
                  None \<Rightarrow> None
                | Some c \<Rightarrow> find (\<lambda>u. user_id u = c) (users s)) of
            None \<Rightarrow> JNull
          | Some u \<Rightarrow> JObject [(''email'', json_of (email u))])]" for q
  proof -
    have e: "user_get v ''email'' u = email u" for u
      by (cases v) (simp_all add: user_get_def)
    show ?thesis
      by (simp add: post_object_def user_object_def e lookup split: option.splits)
  qed
  have bad: "validate_post v [Sel ''creator'' ((k, x) # rest) subs] =
               Some (BadSelection (UnknownArgument ''creator'' k))"
    by (simp add: unknown_argument_def creator_args_def)
  have many: "respond v [Sel ''creator'' [] [Sel ''email'' [] []]] (ManyPosts xs) s =
      Inr (JArray (map (\<lambda>q. post_object v [Sel ''creator'' [] [Sel ''email'' [] []]] q s) xs))"
    for xs
    by (simp add: respond_def validate_creator_email del: validate_post.simps)
  have one: "respond v [Sel ''creator'' [] [Sel ''email'' [] []]] (OnePost (Some p)) s =
      Inr (post_object v [Sel ''creator'' [] [Sel ''email'' [] []]] p s)"
    by (simp add: respond_def validate_creator_email del: validate_post.simps)
  have all: "respond v [Sel ''creator'' [] [Sel ''email'' [] []]] (ManyPosts ps) s =
     Inr (JArray
       (map (\<lambda>q. JObject
                 [(''creator'',
                   case (case creatorId q of
                           None \<Rightarrow> None
                         | Some c \<Rightarrow> find (\<lambda>u. user_id u = c) (users s)) of
                     None \<Rightarrow> JNull
                   | Some u \<Rightarrow> JObject [(''email'', json_of (email u))])])
          ps))"
    unfolding many by (simp add: obj)
  have absent: "creator_resolve p a s = None \<and>
      respond v [Sel ''creator'' [] [Sel ''email'' [] []]]
        (ManyPosts (before @ p # after)) s =
        Inr (JArray
          (map (\<lambda>q. post_object v [Sel ''creator'' [] [Sel ''email'' [] []]] q s) before @
           JObject [(''creator'', JNull)] #
           map (\<lambda>q. post_object v [Sel ''creator'' [] [Sel ''email'' [] []]] q s) after)) \<and>
      respond v [Sel ''creator'' [] [Sel ''email'' [] []]] (OnePost (Some p)) s =
        Inr (JObject [(''creator'', JNull)])"
    if h: "creatorId p = Some c" "c \<notin> user_id ` set (users s)"
  proof -
    from h have n: "find (\<lambda>u. user_id u = c) (users s) = None"
      by (simp add: find_absent)
    have r: "creator_resolve p a s = None"
      unfolding lookup using h(1) n by simp
    have o: "post_object v [Sel ''creator'' [] [Sel ''email'' [] []]] p s =
               JObject [(''creator'', JNull)]"
      unfolding obj using h(1) n by simp
    from r o show ?thesis
      by (simp add: many one del: validate_post.simps)
  qed
  from lookup [of p a] all absent bad show ?thesis
    by (simp add: creator_args_def del: validate_post.simps)
qed

theorem creator_absent_is_null_witness:
  "creator_resolve hello_post [] example_store = Some alice \<and>
   respond Schema_js [Sel ''creator'' [] [Sel ''email'' [] []]] (ManyPosts [hello_post])
     example_store =
     Inr (JArray [JObject [(''creator'', JObject [(''email'', JString ''a@t.com'')])]]) \<and>
   creatorId hello_post = Some ''u1'' \<and>
   ''u1'' \<notin> user_id ` set (users (example_store\<lparr>users := []\<rparr>)) \<and>
   creator_resolve hello_post [] (example_store\<lparr>users := []\<rparr>) = None \<and>
   respond Schema_js [Sel ''creator'' [] [Sel ''email'' [] []]] (ManyPosts [hello_post])
     (example_store\<lparr>users := []\<rparr>) =
     Inr (JArray [JObject [(''creator'', JNull)]])"
  using
    creator_absent_is_null [where p = hello_post and a = "[]" and s = example_store
      and v = Schema_js and ps = "[hello_post]"]
    creator_absent_is_null [where p = hello_post and a = "[]"
      and s = "example_store\<lparr>users := []\<rparr>" and v = Schema_js and c = "''u1''"
      and before = "[]" and after = "[]"]
  by (simp add: example_defs del: validate_post.simps)

section \<open>Further properties of the resolvers\<close>

lemma mutation_createUser:
  "map_of (type_fields (mutation cfg v)) ''createUser'' = Some (createUser_field v)"
  by (simp add: mutation_def)

lemma createUser_resolve_eq:
  "createUser_resolve v a s =
     (Inr (OneUser (Some
        \<lparr>user_id = fresh_id (next_id s), firstName = map_of a (name_key v),
         email = map_of a ''email'', phone = map_of a ''phone''\<rparr>)),
      s\<lparr>users := users s @
          [\<lparr>user_id = fresh_id (next_id s), firstName = map_of a (name_key v),
            email = map_of a ''email'', phone = map_of a ''phone''\<rparr>],
        next_id := Suc (next_id s),
        journal := journal s @ [InsertedUser (fresh_id (next_id s))]\<rparr>)"
  by (cases v; cases "map_of a (name_key v)"; cases "map_of a ''email''";
      cases "map_of a ''phone''")
     (simp_all add: createUser_resolve_def new_User_def User_save_def getprop_def Let_def)

lemma find_append_absent:
  "x \<notin> f ` set xs \<Longrightarrow>
   find (\<lambda>u. f u = x) (xs @ [y]) = (if f y = x then Some y else None)"
  by (induction xs) auto

lemma execute_user:
  "execute (schema cfg v) Query ''user'' [(''id'', i)] s =
     (Inr (OneUser (User_findById (Some i) s)), s)"
  by (simp add: execute_def schema_def RootQuery_def execute_field_def unknown_argument_def
      user_resolve_def)

text \<open>
  A \<^verbatim>\<open>createUser\<close> request that gives the three required arguments and no other,
  run against the mutation type, appends a user whose fields are the arguments given;
  when the identifier the store assigns is not in use, a \<^verbatim>\<open>user\<close> query for it through
  the exported schema returns that user.
\<close>

lemma createUser_then_user:
  assumes "map_of supplied (name_key v) = Some n"
    and "map_of supplied ''email'' = Some e"
    and "map_of supplied ''phone'' = Some ph"
    and "unknown_argument (fargs (createUser_field v)) supplied = None"
    and "fresh_id (next_id s) \<notin> user_id ` set (users s)"
  shows "\<exists>u s'. execute_field (mutation cfg v) ''createUser'' supplied s =
                  (Inr (OneUser (Some u)), s') \<and>
           firstName u = Some n \<and> email u = Some e \<and> phone u = Some ph \<and>
           users s' = users s @ [u] \<and>
           execute (schema cfg v) Query ''user'' [(''id'', user_id u)] s' =
             (Inr (OneUser (Some u)), s')"
proof -
  have a: "getArgumentValues ''createUser'' (fargs (createUser_field v)) supplied =
      Inr [(name_key v, n), (''email'', e), (''phone'', ph)]"
    using assms(1-3) by (simp add: createUser_field_def)
  have ex: "execute_field (mutation cfg v) ''createUser'' supplied s =
      createUser_resolve v [(name_key v, n), (''email'', e), (''phone'', ph)] s"
    using a assms(4)
    by (simp add: execute_field_def mutation_createUser) (simp add: createUser_field_def)
  show ?thesis
    unfolding ex createUser_resolve_eq execute_user
    using assms(5) by (cases v) (simp_all add: User_findById_def find_append_absent)
qed

lemma createUser_then_user_witness:
  "\<exists>u s'. execute_field (mutation plain_client Schema_js) ''createUser''
            [(''firstName'', ''Bo''), (''email'', ''b@t.com''), (''phone'', ''0'')]
            example_store = (Inr (OneUser (Some u)), s') \<and>
          firstName u = Some ''Bo'' \<and> users s' = [alice, u] \<and>
          execute (schema plain_client Schema_js) Query ''user'' [(''id'', user_id u)] s' =
            (Inr (OneUser (Some u)), s')"
  using createUser_then_user [where supplied =
      "[(''firstName'', ''Bo''), (''email'', ''b@t.com''), (''phone'', ''0'')]"
      and v = Schema_js and n = "''Bo''" and e = "''b@t.com''" and ph = "''0''"
      and s = example_store and cfg = plain_client]
  by (auto simp: unknown_argument_def createUser_field_def fresh_id_def example_defs)

text \<open>
  A \<^verbatim>\<open>createUser\<close> request without \<^verbatim>\<open>email\<close> is rejected before the resolver runs:
  the store is as it was.
\<close>

lemma createUser_missing_argument:
  assumes "map_of supplied (name_key v) = Some n"
    and "map_of supplied ''email'' = None"
    and "unknown_argument (fargs (createUser_field v)) supplied = None"
  shows "execute_field (mutation cfg v) ''createUser'' supplied s =
           (Inl (MissingArgument ''createUser'' ''email''), s)"
  using assms
  by (simp add: execute_field_def mutation_createUser)
     (cases v; simp add: createUser_field_def)

lemma createUser_missing_argument_witness:
  "execute_field (mutation plain_client Schema_js) ''createUser''
     [(''firstName'', ''Bo''), (''phone'', ''0'')] example_store =
     (Inl (MissingArgument ''createUser'' ''email''), example_store)"
  using createUser_missing_argument [where supplied =
      "[(''firstName'', ''Bo''), (''phone'', ''0'')]" and v = Schema_js and n = "''Bo''"
      and cfg = plain_client and s = example_store]
  by (simp add: unknown_argument_def createUser_field_def)

text \<open>
  The one field the exported schema serves: a \<^verbatim>\<open>user\<close> query returns the first user
  with the identifier given, \<open>None\<close> when there is none, and leaves the store as it was.
\<close>

lemma user_query_reads_store:
  "execute (schema cfg v) Query ''user'' [(''id'', i)] s =
     (Inr (OneUser (find (\<lambda>u. user_id u = i) (users s))), s)"
  by (simp add: execute_user User_findById_def)

text \<open>
  \<^verbatim>\<open>deletePost\<close> with an identifier that matches no post, run against the mutation
  type, resolves to \<open>None\<close> and leaves the store as it was.
\<close>

lemma deletePost_absent_id:
  assumes "Post_findById (Some i) s = None"
  shows "execute_field (mutation cfg v) ''deletePost'' [(''id'', i)] s =
           (Inr (OnePost None), s)"
  using assms
  by (cases v)
     (simp_all add: execute_field_def mutation_def deletePost_field_def unknown_argument_def
        deletePost_absent)

lemma deletePost_absent_id_witness:
  "Post_findById (Some ''p9'') example_store = None \<and>
   execute_field (mutation plain_client Schema_js) ''deletePost'' [(''id'', ''p9'')]
     example_store = (Inr (OnePost None), example_store)"
proof -
  have h: "Post_findById (Some ''p9'') example_store = None"
    by (simp add: Post_findById_def example_defs)
  from h deletePost_absent_id [OF h] show ?thesis by simp
qed

end
